theory Spec2Isabelle
  imports Main
begin

section \<open>Automatically refreshing access tokens (spotipy/util/credentials.py)\<close>

subsection \<open>Tokens and the credentials manager\<close>

text \<open>
  Modelled from the spec: the classes \<open>Token\<close> and \<open>Credentials\<close> live in
  \<open>spotipy.auth\<close>, which is not among the source files. A token is an immutable
  record of the fields the wrapper reads. \<open>is_expiring\<close> is a property the token derives
  from its expiry time; the field holds what the token reports when the wrapper asks.
\<close>

record Token =
  Token_access_token :: string
  Token_token_type :: string
  Token_scope :: string
  Token_refresh_token :: "string option"
  Token_expires_at :: "int option"
  Token_is_expiring :: bool

text \<open>
  The credentials manager is an external collaborator: \<open>refresh\<close> performs a web
  request, so it reads and changes a world \<open>'w\<close> outside the program, and it either raises
  an error \<open>'e\<close> (\<open>Inl\<close>) or returns a new token (\<open>Inr\<close>). Nothing is assumed about it.
\<close>

record ('e, 'w) Credentials =
  refresh :: "Token \<Rightarrow> 'w \<Rightarrow> ('e + Token) \<times> 'w"

subsection \<open>RefreshingToken\<close>

text \<open>
  \<^verbatim>\<open>
  def __init__(self, token: Token, credentials: Credentials):
      self._token = token
      self._credentials = credentials
  \<close>
\<close>

record ('e, 'w) RefreshingToken =
  self_token :: Token
  self_credentials :: "('e, 'w) Credentials"

text \<open>
  Reading a property of the wrapper is an operation on the object and on the world. Its
  outcome is the value returned or the error raised, the object and the world afterwards,
  and the calls made on the credentials manager during the read, each call recorded by the
  token it was given.
\<close>

record ('e, 'w, 'a) outcome =
  returned :: "'e + 'a"
  self_after :: "('e, 'w) RefreshingToken"
  world_after :: 'w
  refresh_calls :: "Token list"

text \<open>
  \<^verbatim>\<open>
  @property
  def access_token(self) -> str:
      if self._token.is_expiring:
          self._token = self._credentials.refresh(self._token)

      return self._token.access_token
  \<close>
  When \<open>refresh\<close> raises, the assignment does not happen and the exception leaves the
  property.
\<close>

definition access_token ::
  "('e, 'w) RefreshingToken \<Rightarrow> 'w \<Rightarrow> ('e, 'w, string) outcome" where
  "access_token self w =
     (if Token_is_expiring (self_token self) then
        (case refresh (self_credentials self) (self_token self) w of
           (Inl e, w') \<Rightarrow>
             \<lparr>returned = Inl e, self_after = self, world_after = w',
              refresh_calls = [self_token self]\<rparr>
         | (Inr tok, w') \<Rightarrow>
             (let self' = self\<lparr>self_token := tok\<rparr> in
              \<lparr>returned = Inr (Token_access_token (self_token self')), self_after = self',
               world_after = w', refresh_calls = [self_token self]\<rparr>))
      else
        \<lparr>returned = Inr (Token_access_token (self_token self)), self_after = self,
         world_after = w, refresh_calls = []\<rparr>)"

text \<open>The other properties only read the object.\<close>

definition refresh_token :: "('e, 'w) RefreshingToken \<Rightarrow> string option" where
  "refresh_token self = Token_refresh_token (self_token self)"

definition token_type :: "('e, 'w) RefreshingToken \<Rightarrow> string" where
  "token_type self = Token_token_type (self_token self)"

definition scope :: "('e, 'w) RefreshingToken \<Rightarrow> string" where
  "scope self = Token_scope (self_token self)"

definition expires_in :: "('e, 'w) RefreshingToken \<Rightarrow> int option" where
  "expires_in self = None"

definition expires_at :: "('e, 'w) RefreshingToken \<Rightarrow> int option" where
  "expires_at self = None"

definition is_expiring :: "('e, 'w) RefreshingToken \<Rightarrow> bool" where
  "is_expiring self = False"

text \<open>
  The interface of the class: its seven properties, and the Python value a read gives.
  \<open>read_property\<close> is the attribute lookup \<open>wrapper.name\<close>; a property that only reads
  the object returns it and the world as they were and makes no call.
\<close>

datatype property =
  P_access_token | P_refresh_token | P_token_type | P_scope
  | P_expires_in | P_expires_at | P_is_expiring

datatype pyvalue = Str string | OptStr "string option" | OptInt "int option" | Bool bool

definition pure_read :: "('e, 'w) RefreshingToken \<Rightarrow> 'w \<Rightarrow> 'a \<Rightarrow> ('e, 'w, 'a) outcome" where
  "pure_read self w v =
     \<lparr>returned = Inr v, self_after = self, world_after = w, refresh_calls = []\<rparr>"

fun read_property ::
  "property \<Rightarrow> ('e, 'w) RefreshingToken \<Rightarrow> 'w \<Rightarrow> ('e, 'w, pyvalue) outcome" where
  "read_property P_access_token self w =
     (let out = access_token self w in
      \<lparr>returned = map_sum id Str (returned out), self_after = self_after out,
       world_after = world_after out, refresh_calls = refresh_calls out\<rparr>)"
| "read_property P_refresh_token self w = pure_read self w (OptStr (refresh_token self))"
| "read_property P_token_type self w = pure_read self w (Str (token_type self))"
| "read_property P_scope self w = pure_read self w (Str (scope self))"
| "read_property P_expires_in self w = pure_read self w (OptInt (expires_in self))"
| "read_property P_expires_at self w = pure_read self w (OptInt (expires_at self))"
| "read_property P_is_expiring self w = pure_read self w (Bool (is_expiring self))"

subsection \<open>A concrete credentials manager\<close>

text \<open>
  An instance used to run the definitions: the world counts the requests the
  authorisation server has received. The first request times out; every later one is
  answered with a token that is not expiring.
\<close>

definition stale_token :: Token where
  "stale_token =
     \<lparr>Token_access_token = ''old'', Token_token_type = ''Bearer'', Token_scope = ''user-read'',
      Token_refresh_token = Some ''r1'', Token_expires_at = Some 100, Token_is_expiring = True\<rparr>"

definition fresh_token :: Token where
  "fresh_token =
     \<lparr>Token_access_token = ''new'', Token_token_type = ''Bearer'', Token_scope = ''user-read playlist'',
      Token_refresh_token = Some ''r2'', Token_expires_at = Some 3700, Token_is_expiring = False\<rparr>"

definition flaky_refresh :: "Token \<Rightarrow> nat \<Rightarrow> (string + Token) \<times> nat" where
  "flaky_refresh tok n = (if n = 0 then Inl ''timeout'' else Inr fresh_token, Suc n)"

definition flaky_credentials :: "(string, nat) Credentials" where
  "flaky_credentials = \<lparr>refresh = flaky_refresh\<rparr>"

definition stale_wrapper :: "(string, nat) RefreshingToken" where
  "stale_wrapper = \<lparr>self_token = stale_token, self_credentials = flaky_credentials\<rparr>"

definition fresh_wrapper :: "(string, nat) RefreshingToken" where
  "fresh_wrapper = \<lparr>self_token = fresh_token, self_credentials = flaky_credentials\<rparr>"

section \<open>The code of a redirect URL (spotipy/util/credentials.py)\<close>

subsection \<open>Python strings and exceptions\<close>

text \<open>
  A Python \<open>str\<close> is represented by its UTF-8 encoding, a list of 8-bit characters: an
  ASCII character is one \<open>char\<close>, any other code point is the two to four \<open>char\<close>s of
  its encoding. The delimiters the code looks for are all ASCII, so searching and splitting
  the encoding is searching and splitting the text.

  An exception is a value: its class and, where it has one, its message.
\<close>

datatype error = KeyError string | ValueError string | IndexError

definition isascii :: "char \<Rightarrow> bool" where
  "isascii c = (of_char c < (0x80::nat))"

definition isalpha_ascii :: "char \<Rightarrow> bool" where
  "isalpha_ascii c =
     ((0x41 \<le> (of_char c :: nat) \<and> (of_char c :: nat) \<le> 0x5A) \<or>
      (0x61 \<le> (of_char c :: nat) \<and> (of_char c :: nat) \<le> 0x7A))"

definition lower_ascii :: "char \<Rightarrow> char" where
  "lower_ascii c =
     (if 0x41 \<le> (of_char c :: nat) \<and> (of_char c :: nat) \<le> 0x5A
      then char_of (of_char c + (0x20::nat)) else c)"

text \<open>
  \<open>s.partition(sep)\<close> gives the text before the first separator, the separator, and the
  text after it; without a separator in \<open>s\<close> it gives \<open>s\<close> and two empty strings.
  \<open>s.split(sep)\<close> cuts \<open>s\<close> at every separator; the empty string gives one empty part.
\<close>

definition partition_str :: "char \<Rightarrow> string \<Rightarrow> string \<times> string \<times> string" where
  "partition_str sep s =
     (if sep \<in> set s
      then (takeWhile (\<lambda>c. c \<noteq> sep) s, [sep], drop 1 (dropWhile (\<lambda>c. c \<noteq> sep) s))
      else (s, [], []))"

fun split_str :: "char \<Rightarrow> string \<Rightarrow> string list" where
  "split_str sep [] = [[]]"
| "split_str sep (c # cs) =
     (if c = sep then [] # split_str sep cs
      else (case split_str sep cs of w # ws \<Rightarrow> (c # w) # ws | [] \<Rightarrow> [[c]]))"

subsection \<open>urllib.parse.urlparse\<close>

text \<open>
  \<open>urlparse\<close>, \<open>parse_qs\<close> and the functions they call belong to Python's standard
  library, not to the repository. They are modelled from \<open>urllib/parse.py\<close> of CPython
  3.11, for a \<open>str\<close> argument and the default values of the optional arguments, which is
  how \<open>parse_code_from_url\<close> calls them.

  Two checks of \<open>urlsplit\<close> rest on tables and parsers outside \<open>urllib\<close>: the syntax of
  a bracketed host (\<open>_check_bracketed_host\<close>, which asks \<open>ipaddress\<close>) and the NFKC
  normalisation of a non-ASCII network location (\<open>unicodedata\<close>). They are parameters of
  the model: \<open>check_bracketed_host\<close> gives the message of the \<open>ValueError\<close> raised for a
  host, if any, and \<open>nfkc_adds_delimiter\<close> says whether normalising the network location
  brings up one of the characters \<open>/?#@:\<close>.
\<close>

record stdlib =
  check_bracketed_host :: "string \<Rightarrow> string option"
  nfkc_adds_delimiter :: "string \<Rightarrow> bool"

definition scheme_chars :: string where
  "scheme_chars =
     ''abcdefghijklmnopqrstuvwxyz'' @ ''ABCDEFGHIJKLMNOPQRSTUVWXYZ'' @ ''0123456789'' @ ''+-.''"

definition uses_params :: "string list" where
  "uses_params = ['''', ''ftp'', ''hdl'', ''prospero'', ''http'', ''imap'',
                  ''https'', ''shttp'', ''rtsp'', ''rtsps'', ''rtspu'', ''sip'',
                  ''sips'', ''mms'', ''sftp'', ''tel'']"

definition WHATWG_C0_CONTROL_OR_SPACE :: string where
  "WHATWG_C0_CONTROL_OR_SPACE = map char_of [0..<(0x20::nat)] @ '' ''"

definition UNSAFE_URL_BYTES_TO_REMOVE :: string where
  "UNSAFE_URL_BYTES_TO_REMOVE = [CHR 0x09, CHR 0x0D, CHR 0x0A]"

text \<open>
  \<^verbatim>\<open>
  def _splitnetloc(url, start=0):
      delim = len(url)
      for c in '/?#':
          wdelim = url.find(c, start)
          if wdelim >= 0:
              delim = min(delim, wdelim)
      return url[start:delim], url[delim:]
  \<close>
  It is only called with \<open>start = 2\<close>.
\<close>

definition splitnetloc :: "string \<Rightarrow> string \<times> string" where
  "splitnetloc url =
     (takeWhile (\<lambda>c. c \<notin> set ''/?#'') (drop 2 url),
      dropWhile (\<lambda>c. c \<notin> set ''/?#'') (drop 2 url))"

text \<open>
  \<^verbatim>\<open>
  def _checknetloc(netloc):
      if not netloc or netloc.isascii():
          return
      ...
      for c in '/?#@:':
          if c in netloc2:
              raise ValueError("netloc '" + netloc + "' contains invalid " +
                               "characters under NFKC normalization")
  \<close>
  The result is the message of the \<open>ValueError\<close> raised, if any.
\<close>

definition checknetloc :: "stdlib \<Rightarrow> string \<Rightarrow> string option" where
  "checknetloc lib netloc =
     (if netloc = [] \<or> list_all isascii netloc then None
      else if nfkc_adds_delimiter lib netloc
      then Some (''netloc '' @ [CHR 0x27] @ netloc @ [CHR 0x27] @
                 '' contains invalid characters under NFKC normalization'')
      else None)"

text \<open>
  The steps of \<open>urlsplit\<close>, in the order of its body.
  \<^verbatim>\<open>
  url = url.lstrip(_WHATWG_C0_CONTROL_OR_SPACE)
  for b in _UNSAFE_URL_BYTES_TO_REMOVE:
      url = url.replace(b, "")
  \<close>
\<close>

definition strip_url :: "string \<Rightarrow> string" where
  "strip_url url =
     filter (\<lambda>c. c \<notin> set UNSAFE_URL_BYTES_TO_REMOVE)
       (dropWhile (\<lambda>c. c \<in> set WHATWG_C0_CONTROL_OR_SPACE) url)"

text \<open>
  \<^verbatim>\<open>
  i = url.find(':')
  if i > 0 and url[0].isascii() and url[0].isalpha():
      for c in url[:i]:
          if c not in scheme_chars:
              break
      else:
          scheme, url = url[:i].lower(), url[i+1:]
  \<close>
  The default scheme is the empty string.
\<close>

definition split_scheme :: "string \<Rightarrow> string \<times> string" where
  "split_scheme url =
     (case partition_str (CHR '':'') url of
        (head, colon, rest) \<Rightarrow>
          if colon \<noteq> [] \<and> (case head of [] \<Rightarrow> False | c # _ \<Rightarrow> isalpha_ascii c) \<and>
             list_all (\<lambda>c. c \<in> set scheme_chars) head
          then (map lower_ascii head, rest)
          else ('''', url))"

text \<open>
  \<^verbatim>\<open>
  if url[:2] == '//':
      netloc, url = _splitnetloc(url, 2)
      if (('[' in netloc and ']' not in netloc) or
              (']' in netloc and '[' not in netloc)):
          raise ValueError("Invalid IPv6 URL")
      if '[' in netloc and ']' in netloc:
          bracketed_host = netloc.partition('[')[2].partition(']')[0]
          _check_bracketed_host(bracketed_host)
  \<close>
  Without the two slashes the network location is empty and has no bracket.
\<close>

definition split_netloc :: "string \<Rightarrow> string \<times> string" where
  "split_netloc url = (if take 2 url = ''//'' then splitnetloc url else ('''', url))"

definition check_brackets :: "stdlib \<Rightarrow> string \<Rightarrow> string option" where
  "check_brackets lib netloc =
     (let has_open = (CHR ''['' \<in> set netloc); has_close = (CHR '']'' \<in> set netloc)
      in if (has_open \<and> \<not> has_close) \<or> (has_close \<and> \<not> has_open)
         then Some ''Invalid IPv6 URL''
         else if has_open \<and> has_close
         then check_bracketed_host lib
                (fst (partition_str (CHR '']'') (snd (snd (partition_str (CHR ''['') netloc)))))
         else None)"

text \<open>
  \<^verbatim>\<open>
  if allow_fragments and '#' in url:
      url, fragment = url.split('#', 1)
  if '?' in url:
      url, query = url.split('?', 1)
  _checknetloc(netloc)
  v = SplitResult(scheme, netloc, url, query, fragment)
  \<close>
\<close>

definition split_once :: "char \<Rightarrow> string \<Rightarrow> string \<times> string" where
  "split_once sep url =
     (if sep \<in> set url
      then (case partition_str sep url of (before, _, after) \<Rightarrow> (before, after))
      else (url, ''''))"

definition urlsplit ::
  "stdlib \<Rightarrow> string \<Rightarrow> error + string \<times> string \<times> string \<times> string \<times> string" where
  "urlsplit lib url0 =
     (case split_scheme (strip_url url0) of
        (scheme, url1) \<Rightarrow>
          (case split_netloc url1 of
             (netloc, url2) \<Rightarrow>
               (case check_brackets lib netloc of
                  Some msg \<Rightarrow> Inl (ValueError msg)
                | None \<Rightarrow>
                    (case split_once (CHR ''#'') url2 of
                       (url3, fragment) \<Rightarrow>
                         (case split_once (CHR ''?'') url3 of
                            (url4, query) \<Rightarrow>
                              (case checknetloc lib netloc of
                                 Some msg \<Rightarrow> Inl (ValueError msg)
                               | None \<Rightarrow> Inr (scheme, netloc, url4, query, fragment)))))))"

record ParseResult =
  scheme :: string
  netloc :: string
  path :: string
  params :: string
  query :: string
  fragment :: string

text \<open>
  \<^verbatim>\<open>
  def _splitparams(url):
      if '/'  in url:
          i = url.find(';', url.rfind('/'))
          if i < 0:
              return url, ''
      else:
          i = url.find(';')
      return url[:i], url[i+1:]
  \<close>
  It is called when the path has a semicolon.
\<close>

definition splitparams :: "string \<Rightarrow> string \<times> string" where
  "splitparams url =
     (if CHR ''/'' \<in> set url then
        (let seg = rev (takeWhile (\<lambda>c. c \<noteq> CHR ''/'') (rev url));
             front = take (length url - length seg) url
         in if CHR '';'' \<in> set seg
            then (case partition_str (CHR '';'') seg of (a, _, b) \<Rightarrow> (front @ a, b))
            else (url, ''''))
      else (case partition_str (CHR '';'') url of (a, _, b) \<Rightarrow> (a, b)))"

text \<open>
  \<^verbatim>\<open>
  def urlparse(url, scheme='', allow_fragments=True):
      splitresult = urlsplit(url, scheme, allow_fragments)
      scheme, netloc, url, query, fragment = splitresult
      if scheme in uses_params and ';' in url:
          url, params = _splitparams(url)
      else:
          params = ''
      result = ParseResult(scheme, netloc, url, params, query, fragment)
  \<close>
\<close>

definition urlparse :: "stdlib \<Rightarrow> string \<Rightarrow> error + ParseResult" where
  "urlparse lib url =
     (case urlsplit lib url of
        Inl e \<Rightarrow> Inl e
      | Inr (scheme', netloc', url', query', fragment') \<Rightarrow>
          (let (url'', params') =
                 (if scheme' \<in> set uses_params \<and> CHR '';'' \<in> set url'
                  then splitparams url' else (url', ''''))
           in Inr \<lparr>scheme = scheme', netloc = netloc', path = url'', params = params',
                   query = query', fragment = fragment'\<rparr>))"

subsection \<open>urllib.parse.unquote\<close>

text \<open>
  \<open>unquote_to_bytes\<close> cuts its argument at every \<open>%\<close>; a piece that starts with two
  hexadecimal digits gives the byte they name and the rest of the piece, any other piece
  is kept with its \<open>%\<close>.
\<close>

definition hexval :: "char \<Rightarrow> nat option" where
  "hexval c =
     (let n = (of_char c :: nat) in
      if 0x30 \<le> n \<and> n \<le> 0x39 then Some (n - 0x30)
      else if 0x41 \<le> n \<and> n \<le> 0x46 then Some (n - 0x41 + 10)
      else if 0x61 \<le> n \<and> n \<le> 0x66 then Some (n - 0x61 + 10)
      else None)"

fun unquote_to_bytes :: "string \<Rightarrow> string" where
  "unquote_to_bytes (c # h1 # h2 # rest) =
     (if c = CHR ''%'' then
        (case (hexval h1, hexval h2) of
           (Some a, Some b) \<Rightarrow> char_of (16 * a + b) # unquote_to_bytes rest
         | _ \<Rightarrow> c # unquote_to_bytes (h1 # h2 # rest))
      else c # unquote_to_bytes (h1 # h2 # rest))"
| "unquote_to_bytes (c # cs) = c # unquote_to_bytes cs"
| "unquote_to_bytes [] = []"

text \<open>
  \<open>bytes.decode('utf-8', 'replace')\<close>: a well-formed sequence is the code point it
  encodes, and so stays as it is in the representation of strings; an ill-formed one is
  replaced by U+FFFD, one replacement for the lead byte and the continuation bytes that
  could follow it, or for a single byte that cannot start a sequence. \<open>utf8_expect\<close> gives,
  for a lead byte, the number of continuation bytes and the range of the first of them.
\<close>

definition REPLACEMENT_CHARACTER :: string where
  "REPLACEMENT_CHARACTER = [CHR 0xEF, CHR 0xBF, CHR 0xBD]"

definition utf8_expect :: "nat \<Rightarrow> (nat \<times> nat \<times> nat) option" where
  "utf8_expect b =
     (if 0xC2 \<le> b \<and> b \<le> 0xDF then Some (1, 0x80, 0xBF)
      else if b = 0xE0 then Some (2, 0xA0, 0xBF)
      else if b = 0xED then Some (2, 0x80, 0x9F)
      else if 0xE1 \<le> b \<and> b \<le> 0xEF then Some (2, 0x80, 0xBF)
      else if b = 0xF0 then Some (3, 0x90, 0xBF)
      else if 0xF1 \<le> b \<and> b \<le> 0xF3 then Some (3, 0x80, 0xBF)
      else if b = 0xF4 then Some (3, 0x80, 0x8F)
      else None)"

fun continuation_bytes :: "nat \<Rightarrow> nat \<Rightarrow> nat \<Rightarrow> string \<Rightarrow> nat" where
  "continuation_bytes n lo hi [] = 0"
| "continuation_bytes n lo hi (c # cs) =
     (if n \<noteq> 0 \<and> lo \<le> of_char c \<and> of_char c \<le> hi
      then Suc (continuation_bytes (n - 1) 0x80 0xBF cs) else 0)"

fun decode_utf8_replace :: "string \<Rightarrow> string" where
  "decode_utf8_replace [] = []"
| "decode_utf8_replace (b # bs) =
     (if isascii b then b # decode_utf8_replace bs
      else
        (case utf8_expect (of_char b) of
           None \<Rightarrow> REPLACEMENT_CHARACTER @ decode_utf8_replace bs
         | Some (n, lo, hi) \<Rightarrow>
             (let k = continuation_bytes n lo hi bs
              in (if k = n then b # take k bs else REPLACEMENT_CHARACTER)
                 @ decode_utf8_replace (drop k bs))))"

text \<open>
  \<^verbatim>\<open>
  def unquote(string, encoding='utf-8', errors='replace'):
      if '%' not in string:
          return string
      bits = _asciire.split(string)
      res = [bits[0]]
      for i in range(1, len(bits), 2):
          append(unquote_to_bytes(bits[i]).decode(encoding, errors))
          append(bits[i + 1])
      return ''.join(res)
  \<close>
  \<open>_asciire\<close> matches the maximal runs of ASCII characters: each run is unquoted and
  decoded on its own, and the text between the runs is kept.
\<close>

function unquote_runs :: "string \<Rightarrow> string" where
  "unquote_runs [] = []"
| "unquote_runs (c # cs) =
     (if isascii c
      then decode_utf8_replace (unquote_to_bytes (takeWhile isascii (c # cs)))
           @ unquote_runs (dropWhile isascii (c # cs))
      else c # unquote_runs cs)"
  by pat_completeness auto
termination
  by (relation "measure length") (auto simp: length_dropWhile_le less_Suc_eq_le)

definition unquote :: "string \<Rightarrow> string" where
  "unquote s = (if CHR ''%'' \<notin> set s then s else unquote_runs s)"

text \<open>
  \<^verbatim>\<open>
  def unquote_plus(string, encoding='utf-8', errors='replace'):
      string = string.replace('+', ' ')
      return unquote(string, encoding, errors)
  \<close>
\<close>

definition unquote_plus :: "string \<Rightarrow> string" where
  "unquote_plus s = unquote (map (\<lambda>c. if c = CHR ''+'' then CHR '' '' else c) s)"

subsection \<open>urllib.parse.parse_qs\<close>

text \<open>
  With the default arguments (\<open>keep_blank_values\<close> and \<open>strict_parsing\<close> false, no
  \<open>max_num_fields\<close>, separator \<open>&\<close>) the loop of \<open>parse_qsl\<close> is
  \<^verbatim>\<open>
  if not qs:
      return []
  r = []
  for name_value in qs.split(separator):
      if name_value or strict_parsing:
          name, has_eq, value = name_value.partition(eq)
          if value or keep_blank_values:
              name = _unquote(name)
              value = _unquote(value)
              r.append((name, value))
  return r
  \<close>
  where \<open>_unquote\<close> is \<open>unquote_plus\<close>.
\<close>

fun parse_qsl_fields :: "string list \<Rightarrow> (string \<times> string) list" where
  "parse_qsl_fields [] = []"
| "parse_qsl_fields (name_value # rest) =
     (if name_value \<noteq> [] then
        (case partition_str (CHR ''='') name_value of
           (name, has_eq, value) \<Rightarrow>
             if value \<noteq> []
             then (unquote_plus name, unquote_plus value) # parse_qsl_fields rest
             else parse_qsl_fields rest)
      else parse_qsl_fields rest)"

definition parse_qsl :: "string \<Rightarrow> (string \<times> string) list" where
  "parse_qsl qs = (if qs = [] then [] else parse_qsl_fields (split_str (CHR ''&'') qs))"

text \<open>
  \<^verbatim>\<open>
  parsed_result = {}
  pairs = parse_qsl(qs, ...)
  for name, value in pairs:
      if name in parsed_result:
          parsed_result[name].append(value)
      else:
          parsed_result[name] = [value]
  return parsed_result
  \<close>
  The dictionary is a map from names to lists of values.
\<close>

fun parse_qs_pairs ::
  "(string \<times> string) list \<Rightarrow> (string \<rightharpoonup> string list) \<Rightarrow> (string \<rightharpoonup> string list)" where
  "parse_qs_pairs [] parsed_result = parsed_result"
| "parse_qs_pairs ((name, value) # pairs) parsed_result =
     (case parsed_result name of
        Some vs \<Rightarrow> parse_qs_pairs pairs (parsed_result(name \<mapsto> vs @ [value]))
      | None \<Rightarrow> parse_qs_pairs pairs (parsed_result(name \<mapsto> [value])))"

definition parse_qs :: "string \<Rightarrow> (string \<rightharpoonup> string list)" where
  "parse_qs qs = parse_qs_pairs (parse_qsl qs) Map.empty"

subsection \<open>parse_code_from_url\<close>

text \<open>
  \<^verbatim>\<open>
  def parse_code_from_url(url: str) -> str:
      query = urlparse(url).query
      code = parse_qs(query).get('code', None)

      if code is None:
          raise KeyError('Parameter `code` not available!')
      elif len(code) > 1:
          raise KeyError('Multiple values for `code`!')

      return code[0]
  \<close>
  A \<open>ValueError\<close> of \<open>urlparse\<close> leaves the function as it is; \<open>code[0]\<close> on an empty
  list would raise \<open>IndexError\<close>.
\<close>

definition parse_code_from_url :: "stdlib \<Rightarrow> string \<Rightarrow> error + string" where
  "parse_code_from_url lib url =
     (case urlparse lib url of
        Inl e \<Rightarrow> Inl e
      | Inr r \<Rightarrow>
          (case parse_qs (query r) ''code'' of
             None \<Rightarrow> Inl (KeyError ''Parameter `code` not available!'')
           | Some code \<Rightarrow>
               if length code > 1 then Inl (KeyError ''Multiple values for `code`!'')
               else (case code of [] \<Rightarrow> Inl IndexError | c # _ \<Rightarrow> Inr c)))"

subsection \<open>The parameters a query string contains\<close>

text \<open>
  What the statements about query strings mean, said without the parser. The fields of a
  query string are its parts between \<open>&\<close>. A field has a name, the text before its first
  \<open>=\<close>, and a value, the text after it (empty when the field has no \<open>=\<close>), both read
  with \<open>+\<close> as a space and percent-escapes decoded. The \<open>code\<close> parameters of a query
  string are its fields named \<open>code\<close>; a parameter is blank when its value is empty.
  The query string of a URL, as a text: what stands between the first \<open>?\<close> and the first
  \<open>#\<close> after tabs and line breaks are taken out.
\<close>

definition query_fields :: "string \<Rightarrow> string list" where
  "query_fields q = split_str (CHR ''&'') q"

definition field_name :: "string \<Rightarrow> string" where
  "field_name f = unquote_plus (fst (partition_str (CHR ''='') f))"

definition field_value :: "string \<Rightarrow> string" where
  "field_value f = unquote_plus (snd (snd (partition_str (CHR ''='') f)))"

definition code_fields :: "string \<Rightarrow> string list" where
  "code_fields q = filter (\<lambda>f. field_name f = ''code'') (query_fields q)"

definition code_values :: "string \<Rightarrow> string list" where
  "code_values q = filter (\<lambda>v. v \<noteq> []) (map field_value (code_fields q))"

definition after_question :: "string \<Rightarrow> string" where
  "after_question s =
     drop 1 (dropWhile (\<lambda>c. c \<noteq> CHR ''?'') (takeWhile (\<lambda>c. c \<noteq> CHR ''#'') s))"

definition query_text :: "string \<Rightarrow> string" where
  "query_text url =
     after_question (filter (\<lambda>c. c \<notin> set UNSAFE_URL_BYTES_TO_REMOVE) url)"

text \<open>
  An instance of the library parameters, to run the definitions: it accepts every
  bracketed host and finds no delimiter by normalisation. The URLs evaluated below have the
  network location \<open>localhost\<close>, for which \<open>urlsplit\<close> consults neither.
\<close>

definition permissive_stdlib :: stdlib where
  "permissive_stdlib =
     \<lparr>check_bracketed_host = (\<lambda>host. None), nfkc_adds_delimiter = (\<lambda>netloc. False)\<rparr>"

section \<open>Properties of RefreshingToken\<close>

lemma access_token_stale_ok:
  assumes "Token_is_expiring (self_token self)"
    and "refresh (self_credentials self) (self_token self) w = (Inr tok, w')"
  shows "access_token self w =
           \<lparr>returned = Inr (Token_access_token tok), self_after = self\<lparr>self_token := tok\<rparr>,
            world_after = w', refresh_calls = [self_token self]\<rparr>"
  using assms by (simp add: access_token_def)

lemma access_token_stale_error:
  assumes "Token_is_expiring (self_token self)"
    and "refresh (self_credentials self) (self_token self) w = (Inl e, w')"
  shows "access_token self w =
           \<lparr>returned = Inl e, self_after = self, world_after = w',
            refresh_calls = [self_token self]\<rparr>"
  using assms by (simp add: access_token_def)

lemma access_token_fresh:
  assumes "\<not> Token_is_expiring (self_token self)"
  shows "access_token self w =
           \<lparr>returned = Inr (Token_access_token (self_token self)), self_after = self,
            world_after = w, refresh_calls = []\<rparr>"
  using assms by (simp add: access_token_def)

lemma access_token_stale_calls:
  assumes "Token_is_expiring (self_token self)"
  shows "refresh_calls (access_token self w) = [self_token self]"
  using assms by (simp add: access_token_def split: prod.splits sum.splits)

lemma stale_wrapper_expiring: "Token_is_expiring (self_token stale_wrapper)"
  by (simp add: stale_wrapper_def stale_token_def)

lemma fresh_wrapper_not_expiring: "\<not> Token_is_expiring (self_token fresh_wrapper)"
  by (simp add: fresh_wrapper_def fresh_token_def)

lemma stale_wrapper_refresh_ok:
  "refresh (self_credentials stale_wrapper) (self_token stale_wrapper) (Suc 0)
     = (Inr fresh_token, Suc (Suc 0))"
  by (simp add: stale_wrapper_def flaky_credentials_def flaky_refresh_def)

lemma stale_wrapper_refresh_error:
  "refresh (self_credentials stale_wrapper) (self_token stale_wrapper) 0
     = (Inl ''timeout'', Suc 0)"
  by (simp add: stale_wrapper_def flaky_credentials_def flaky_refresh_def)

text \<open>
  C1. When the held token reports itself expiring, a read of \<open>access_token\<close> makes exactly
  one call on the credentials manager, \<open>refresh\<close> with the held token; and when that call
  returns a token, the wrapper holds that token afterwards (its credentials reference is
  the same) and the read returns the access-token value of the new token.
\<close>

theorem C1_access_token_refreshes_stale:
  assumes "Token_is_expiring (self_token self)"
  shows "refresh_calls (access_token self w) = [self_token self] \<and>
         (\<forall>tok w'. refresh (self_credentials self) (self_token self) w = (Inr tok, w') \<longrightarrow>
            returned (access_token self w) = Inr (Token_access_token tok) \<and>
            self_after (access_token self w) = self\<lparr>self_token := tok\<rparr> \<and>
            world_after (access_token self w) = w')"
  using assms by (simp add: access_token_def split: prod.splits sum.splits)

theorem C1_witness:
  "Token_is_expiring (self_token stale_wrapper) \<and>
   refresh (self_credentials stale_wrapper) (self_token stale_wrapper) (Suc 0)
     = (Inr fresh_token, Suc (Suc 0)) \<and>
   refresh_calls (access_token stale_wrapper (Suc 0)) = [stale_token] \<and>
   returned (access_token stale_wrapper (Suc 0)) = Inr ''new'' \<and>
   self_token (self_after (access_token stale_wrapper (Suc 0))) = fresh_token \<and>
   self_credentials (self_after (access_token stale_wrapper (Suc 0))) = flaky_credentials"
  using C1_access_token_refreshes_stale [OF stale_wrapper_expiring, of "Suc 0"]
    stale_wrapper_expiring stale_wrapper_refresh_ok
  by (simp add: stale_wrapper_def fresh_token_def)

text \<open>
  C2. When the held token reports itself expiring and the \<open>refresh\<close> call raises an
  error, the read of \<open>access_token\<close> raises that same error, the wrapper is exactly as it
  was before the read (it still holds the old token), and a later read of \<open>access_token\<close>,
  whatever the world is by then, calls \<open>refresh\<close> again with the held token.
\<close>

theorem C2_refresh_error_propagates:
  assumes "Token_is_expiring (self_token self)"
    and "refresh (self_credentials self) (self_token self) w = (Inl e, w')"
  shows "returned (access_token self w) = Inl e \<and>
         self_after (access_token self w) = self \<and>
         world_after (access_token self w) = w' \<and>
         (\<forall>w2. refresh_calls (access_token (self_after (access_token self w)) w2)
                = [self_token self])"
  using assms by (simp add: access_token_def split: prod.splits sum.splits)

theorem C2_witness:
  "Token_is_expiring (self_token stale_wrapper) \<and>
   refresh (self_credentials stale_wrapper) (self_token stale_wrapper) 0
     = (Inl ''timeout'', Suc 0) \<and>
   returned (access_token stale_wrapper 0) = Inl ''timeout'' \<and>
   self_after (access_token stale_wrapper 0) = stale_wrapper \<and>
   world_after (access_token stale_wrapper 0) = Suc 0 \<and>
   refresh_calls (access_token (self_after (access_token stale_wrapper 0))
                    (world_after (access_token stale_wrapper 0))) = [stale_token] \<and>
   returned (access_token (self_after (access_token stale_wrapper 0))
               (world_after (access_token stale_wrapper 0))) = Inr ''new''"
proof -
  note first = C2_refresh_error_propagates
    [OF stale_wrapper_expiring stale_wrapper_refresh_error]
  have held: "self_token stale_wrapper = stale_token"
    by (simp add: stale_wrapper_def)
  have again: "refresh_calls (access_token (self_after (access_token stale_wrapper 0)) (Suc 0))
                 = [stale_token]"
    using first held by auto
  have unchanged: "self_after (access_token stale_wrapper 0) = stale_wrapper"
    using first by simp
  have second: "returned (access_token stale_wrapper (Suc 0)) = Inr ''new''"
    using stale_wrapper_expiring stale_wrapper_refresh_ok
    by (simp add: access_token_def fresh_token_def)
  show ?thesis
    using first again unchanged second stale_wrapper_expiring stale_wrapper_refresh_error
    by simp
qed

text \<open>
  C3. When the held token does not report itself expiring, a read of \<open>access_token\<close>
  makes no call on the credentials manager, returns the access-token value of the held
  token, and leaves the wrapper and the world as they were.
\<close>

theorem C3_access_token_fresh_no_call:
  assumes "\<not> Token_is_expiring (self_token self)"
  shows "refresh_calls (access_token self w) = [] \<and>
         returned (access_token self w) = Inr (Token_access_token (self_token self)) \<and>
         self_after (access_token self w) = self \<and>
         world_after (access_token self w) = w"
  using assms by (simp add: access_token_def)

theorem C3_witness:
  "\<not> Token_is_expiring (self_token fresh_wrapper) \<and>
   refresh_calls (access_token fresh_wrapper (0::nat)) = [] \<and>
   returned (access_token fresh_wrapper (0::nat)) = Inr ''new'' \<and>
   self_after (access_token fresh_wrapper (0::nat)) = fresh_wrapper \<and>
   world_after (access_token fresh_wrapper (0::nat)) = 0"
  using C3_access_token_fresh_no_call [OF fresh_wrapper_not_expiring, of 0]
    fresh_wrapper_not_expiring
  by (simp add: fresh_wrapper_def fresh_token_def)

text \<open>
  C4. For every wrapper, whatever token it holds, \<open>expires_in\<close> and \<open>expires_at\<close> are
  \<open>None\<close> and \<open>is_expiring\<close> is \<open>False\<close>; read as properties they return these values
  and raise nothing.
\<close>

theorem C4_expiry_hidden:
  "expires_in self = None \<and> expires_at self = None \<and> is_expiring self = False \<and>
   returned (read_property P_expires_in self w) = Inr (OptInt None) \<and>
   returned (read_property P_expires_at self w) = Inr (OptInt None) \<and>
   returned (read_property P_is_expiring self w) = Inr (Bool False)"
  by (simp add: expires_in_def expires_at_def is_expiring_def pure_read_def)

theorem C4_witness:
  "Token_is_expiring (self_token stale_wrapper) \<and>
   Token_expires_at (self_token stale_wrapper) = Some 100 \<and>
   expires_in stale_wrapper = None \<and> expires_at stale_wrapper = None \<and>
   is_expiring stale_wrapper = False \<and>
   returned (read_property P_expires_in stale_wrapper (0::nat)) = Inr (OptInt None) \<and>
   returned (read_property P_expires_at stale_wrapper (0::nat)) = Inr (OptInt None) \<and>
   returned (read_property P_is_expiring stale_wrapper (0::nat)) = Inr (Bool False)"
proof -
  note c4 = C4_expiry_hidden [of stale_wrapper "0::nat"]
  have held: "Token_expires_at (self_token stale_wrapper) = Some 100"
    by (simp add: stale_wrapper_def stale_token_def)
  show ?thesis
    using c4 held stale_wrapper_expiring by auto
qed

text \<open>
  C5. A read of \<open>refresh_token\<close>, \<open>token_type\<close> or \<open>scope\<close> returns that field of the
  token the wrapper holds, makes no call on the credentials manager and changes neither
  the wrapper nor the world, whether the held token is expiring or not. After a read of
  \<open>access_token\<close> that refreshed the token, the three properties are those of the new
  token.
\<close>

theorem C5_field_reads_pass_through:
  "read_property P_refresh_token self w =
     \<lparr>returned = Inr (OptStr (Token_refresh_token (self_token self))), self_after = self,
      world_after = w, refresh_calls = []\<rparr> \<and>
   read_property P_token_type self w =
     \<lparr>returned = Inr (Str (Token_token_type (self_token self))), self_after = self,
      world_after = w, refresh_calls = []\<rparr> \<and>
   read_property P_scope self w =
     \<lparr>returned = Inr (Str (Token_scope (self_token self))), self_after = self,
      world_after = w, refresh_calls = []\<rparr> \<and>
   (\<forall>tok w'. Token_is_expiring (self_token self) \<and>
        refresh (self_credentials self) (self_token self) w = (Inr tok, w') \<longrightarrow>
      refresh_token (self_after (access_token self w)) = Token_refresh_token tok \<and>
      token_type (self_after (access_token self w)) = Token_token_type tok \<and>
      scope (self_after (access_token self w)) = Token_scope tok)"
  by (simp add: pure_read_def refresh_token_def token_type_def scope_def access_token_def)

theorem C5_witness:
  "Token_is_expiring (self_token stale_wrapper) \<and>
   refresh (self_credentials stale_wrapper) (self_token stale_wrapper) (Suc 0)
     = (Inr fresh_token, Suc (Suc 0)) \<and>
   read_property P_refresh_token stale_wrapper (Suc 0) =
     \<lparr>returned = Inr (OptStr (Some ''r1'')), self_after = stale_wrapper,
      world_after = Suc 0, refresh_calls = []\<rparr> \<and>
   read_property P_scope stale_wrapper (Suc 0) =
     \<lparr>returned = Inr (Str ''user-read''), self_after = stale_wrapper,
      world_after = Suc 0, refresh_calls = []\<rparr> \<and>
   refresh_token (self_after (access_token stale_wrapper (Suc 0))) = Some ''r2'' \<and>
   token_type (self_after (access_token stale_wrapper (Suc 0))) = ''Bearer'' \<and>
   scope (self_after (access_token stale_wrapper (Suc 0))) = ''user-read playlist''"
proof -
  note c5 = C5_field_reads_pass_through [of stale_wrapper "Suc 0"]
  have held: "self_token stale_wrapper = stale_token"
    by (simp add: stale_wrapper_def)
  show ?thesis
    using c5 stale_wrapper_expiring stale_wrapper_refresh_ok
    by (simp add: held stale_token_def fresh_token_def)
qed

text \<open>
  C6. A read of any property leaves the credentials reference of the wrapper as it was.
  A read of a property other than \<open>access_token\<close> leaves the wrapper and the world as
  they were and makes no call. A read after which the wrapper holds another token is a
  read of \<open>access_token\<close> on a token that reported itself expiring, during which the one
  call \<open>refresh\<close> on the held token returned the token held afterwards.
\<close>

theorem C6_only_access_token_replaces:
  "self_credentials (self_after (read_property p self w)) = self_credentials self \<and>
   (p \<noteq> P_access_token \<longrightarrow>
      self_after (read_property p self w) = self \<and>
      world_after (read_property p self w) = w \<and>
      refresh_calls (read_property p self w) = []) \<and>
   (self_after (read_property p self w) \<noteq> self \<longrightarrow>
      p = P_access_token \<and> Token_is_expiring (self_token self) \<and>
      refresh_calls (read_property p self w) = [self_token self] \<and>
      fst (refresh (self_credentials self) (self_token self) w)
        = Inr (self_token (self_after (read_property p self w))))"
  by (cases p)
    (simp_all add: pure_read_def access_token_def Let_def split: prod.splits sum.splits)

theorem C6_witness:
  "self_credentials (self_after (read_property P_access_token stale_wrapper (Suc 0)))
     = self_credentials stale_wrapper \<and>
   self_after (read_property P_scope stale_wrapper (Suc 0)) = stale_wrapper \<and>
   world_after (read_property P_scope stale_wrapper (Suc 0)) = Suc 0 \<and>
   refresh_calls (read_property P_scope stale_wrapper (Suc 0)) = [] \<and>
   self_after (read_property P_access_token stale_wrapper (Suc 0)) \<noteq> stale_wrapper \<and>
   Token_is_expiring (self_token stale_wrapper) \<and>
   refresh_calls (read_property P_access_token stale_wrapper (Suc 0)) = [stale_token] \<and>
   self_token (self_after (read_property P_access_token stale_wrapper (Suc 0))) = fresh_token"
proof -
  note c6a = C6_only_access_token_replaces [of P_access_token stale_wrapper "Suc 0"]
  note c6s = C6_only_access_token_replaces [of P_scope stale_wrapper "Suc 0"]
  have differ: "stale_token \<noteq> fresh_token"
    by (simp add: stale_token_def fresh_token_def)
  have changed: "self_after (read_property P_access_token stale_wrapper (Suc 0))
                   = stale_wrapper\<lparr>self_token := fresh_token\<rparr>"
    using stale_wrapper_expiring stale_wrapper_refresh_ok
    by (simp add: access_token_def)
  have neq: "stale_wrapper\<lparr>self_token := fresh_token\<rparr> \<noteq> stale_wrapper"
    using differ by (simp add: stale_wrapper_def)
  have held: "self_token stale_wrapper = stale_token"
    by (simp add: stale_wrapper_def)
  show ?thesis
    using c6a c6s changed neq held stale_wrapper_expiring by simp
qed

section \<open>Properties of parse_code_from_url\<close>

subsection \<open>What parse_qs finds under a name\<close>

lemma unquote_to_bytes_Nil_iff: "unquote_to_bytes s = [] \<longleftrightarrow> s = []"
  by (induction s rule: unquote_to_bytes.induct) (auto split: option.splits)

lemma REPLACEMENT_CHARACTER_not_Nil: "REPLACEMENT_CHARACTER \<noteq> []"
  by (simp add: REPLACEMENT_CHARACTER_def)

lemma decode_utf8_replace_Nil_iff: "decode_utf8_replace s = [] \<longleftrightarrow> s = []"
  by (cases s) (auto simp: REPLACEMENT_CHARACTER_not_Nil Let_def split: option.splits)

lemma unquote_runs_Nil_iff: "unquote_runs s = [] \<longleftrightarrow> s = []"
  by (cases s) (auto simp: decode_utf8_replace_Nil_iff unquote_to_bytes_Nil_iff)

lemma unquote_Nil_iff: "unquote s = [] \<longleftrightarrow> s = []"
  by (auto simp: unquote_def unquote_runs_Nil_iff)

text \<open>Decoding turns no value into a blank one: a value is blank when its text is empty.\<close>

lemma unquote_plus_Nil_iff: "unquote_plus s = [] \<longleftrightarrow> s = []"
  by (simp add: unquote_plus_def unquote_Nil_iff)

lemma parse_qsl_fields_eq:
  "parse_qsl_fields fs =
     map (\<lambda>f. (field_name f, field_value f)) (filter (\<lambda>f. field_value f \<noteq> []) fs)"
  by (induction fs)
    (auto simp: field_name_def field_value_def unquote_plus_Nil_iff partition_str_def
          split: prod.splits)

text \<open>\<open>parse_qsl\<close> keeps the fields whose value is not blank, in their order.\<close>

lemma parse_qsl_eq:
  "parse_qsl q =
     map (\<lambda>f. (field_name f, field_value f))
       (filter (\<lambda>f. field_value f \<noteq> []) (query_fields q))"
  by (simp add: parse_qsl_def parse_qsl_fields_eq query_fields_def field_value_def
      partition_str_def unquote_plus_Nil_iff)

lemma parse_qs_pairs_lookup:
  "parse_qs_pairs ps d k =
     (let vs = map snd (filter (\<lambda>p. fst p = k) ps)
      in if vs = [] then d k
         else Some ((case d k of None \<Rightarrow> [] | Some ws \<Rightarrow> ws) @ vs))"
proof (induction ps arbitrary: d)
  case Nil
  then show ?case by simp
next
  case (Cons p ps)
  obtain name v where p: "p = (name, v)" by (cases p)
  show ?case
    by (cases "d name") (auto simp: p Cons.IH Let_def)
qed

lemma parse_qs_code:
  "parse_qs q ''code'' = (if code_values q = [] then None else Some (code_values q))"
proof -
  have "map snd (filter (\<lambda>p. fst p = ''code'') (parse_qsl q)) = code_values q"
    by (simp add: parse_qsl_eq code_values_def code_fields_def filter_map o_def conj_commute)
  then show ?thesis
    by (simp add: parse_qs_def parse_qs_pairs_lookup Let_def)
qed

text \<open>
  The function by the values of the \<open>code\<close> parameters that are not blank: none is the
  missing-code error, one is returned, more are the multiple-code error.
\<close>

lemma parse_code_from_url_eq:
  "parse_code_from_url lib url =
     (case urlparse lib url of
        Inl e \<Rightarrow> Inl e
      | Inr r \<Rightarrow>
          (case code_values (query r) of
             [] \<Rightarrow> Inl (KeyError ''Parameter `code` not available!'')
           | [c] \<Rightarrow> Inr c
           | _ \<Rightarrow> Inl (KeyError ''Multiple values for `code`!'')))"
  by (auto simp: parse_code_from_url_def parse_qs_code split: sum.splits list.splits)

text \<open>The list under a name is never empty, so \<open>code[0]\<close> does not raise.\<close>

lemma urlsplit_error: "urlsplit lib url = Inl e \<Longrightarrow> \<exists>msg. e = ValueError msg"
  by (auto simp: urlsplit_def split: prod.splits option.splits)

lemma urlparse_error: "urlparse lib url = Inl e \<Longrightarrow> \<exists>msg. e = ValueError msg"
  by (auto simp: urlparse_def Let_def split: sum.splits prod.splits dest: urlsplit_error)

lemma parse_code_from_url_no_IndexError: "parse_code_from_url lib url \<noteq> Inl IndexError"
  by (auto simp: parse_code_from_url_eq split: sum.splits list.splits dest: urlparse_error)

lemma length_code_values:
  "length (code_values q) = length (filter (\<lambda>f. field_value f \<noteq> []) (code_fields q))"
  by (simp add: code_values_def filter_map o_def)

subsection \<open>The query string urlparse reports\<close>

lemma after_question_prefix:
  assumes "CHR ''#'' \<notin> set pre" and "CHR ''?'' \<notin> set pre"
  shows "after_question (pre @ s) = after_question s"
proof -
  have "takeWhile (\<lambda>c. c \<noteq> CHR ''#'') (pre @ s) = pre @ takeWhile (\<lambda>c. c \<noteq> CHR ''#'') s"
    using assms(1) by (intro takeWhile_append2) auto
  moreover have "dropWhile (\<lambda>c. c \<noteq> CHR ''?'') (pre @ t) = dropWhile (\<lambda>c. c \<noteq> CHR ''?'') t"
    for t
    using assms(2) by (intro dropWhile_append2) auto
  ultimately show ?thesis by (simp add: after_question_def)
qed

lemma dropWhile_neq_Cons:
  assumes "sep \<in> set s"
  shows "dropWhile (\<lambda>c. c \<noteq> sep) s = sep # drop 1 (dropWhile (\<lambda>c. c \<noteq> sep) s)"
proof (cases "dropWhile (\<lambda>c. c \<noteq> sep) s")
  case Nil
  then show ?thesis using assms by (auto simp: dropWhile_eq_Nil_conv)
next
  case (Cons x xs)
  then have "x = sep" using hd_dropWhile [of "\<lambda>c. c \<noteq> sep" s] by force
  then show ?thesis using Cons by simp
qed

lemma partition_str_append:
  assumes "partition_str sep s = (a, m, b)"
  shows "s = a @ m @ b"
proof (cases "sep \<in> set s")
  case True
  then have "a = takeWhile (\<lambda>c. c \<noteq> sep) s" and "m @ b = dropWhile (\<lambda>c. c \<noteq> sep) s"
    using assms dropWhile_neq_Cons [OF True] by (auto simp: partition_str_def)
  then show ?thesis by simp
next
  case False
  then show ?thesis using assms by (simp add: partition_str_def)
qed

lemma c0_no_hash: "CHR ''#'' \<notin> set WHATWG_C0_CONTROL_OR_SPACE"
  by code_simp

lemma c0_no_question: "CHR ''?'' \<notin> set WHATWG_C0_CONTROL_OR_SPACE"
  by code_simp

lemma scheme_no_hash: "CHR ''#'' \<notin> set scheme_chars"
  by code_simp

lemma scheme_no_question: "CHR ''?'' \<notin> set scheme_chars"
  by code_simp

lemma query_text_strip_url: "after_question (strip_url url) = query_text url"
proof -
  let ?P = "\<lambda>c. c \<in> set WHATWG_C0_CONTROL_OR_SPACE"
  let ?f = "\<lambda>c. c \<notin> set UNSAFE_URL_BYTES_TO_REMOVE"
  have "filter ?f url = filter ?f (takeWhile ?P url) @ strip_url url"
    unfolding strip_url_def by (metis filter_append takeWhile_dropWhile_id)
  moreover have "CHR ''#'' \<notin> set (filter ?f (takeWhile ?P url))"
    using c0_no_hash by (auto dest: set_takeWhileD)
  moreover have "CHR ''?'' \<notin> set (filter ?f (takeWhile ?P url))"
    using c0_no_question by (auto dest: set_takeWhileD)
  ultimately have "after_question (filter ?f url) = after_question (strip_url url)"
    by (simp add: after_question_prefix)
  then show ?thesis
    by (simp add: query_text_def)
qed

lemma after_question_split_scheme:
  assumes "split_scheme url = (s, rest)"
  shows "after_question rest = after_question url"
proof -
  obtain head colon tail where p: "partition_str (CHR '':'') url = (head, colon, tail)"
    by (cases "partition_str (CHR '':'') url") auto
  show ?thesis
  proof (cases "rest = url")
    case True
    then show ?thesis by simp
  next
    case False
    then have taken: "colon \<noteq> []" "list_all (\<lambda>c. c \<in> set scheme_chars) head" "rest = tail"
      using assms p by (auto simp: split_scheme_def split: if_splits)
    have colon: "colon = '':''"
      using p taken(1) by (auto simp: partition_str_def split: if_splits)
    have url: "url = (head @ '':'') @ rest"
      using partition_str_append [OF p] colon taken(3) by simp
    have "CHR ''#'' \<notin> set (head @ '':'')" "CHR ''?'' \<notin> set (head @ '':'')"
      using taken(2) scheme_no_hash scheme_no_question by (auto simp: list_all_iff)
    then have "after_question ((head @ '':'') @ rest) = after_question rest"
      by (rule after_question_prefix)
    then show ?thesis using url by simp
  qed
qed

lemma after_question_split_netloc:
  assumes "split_netloc url = (n, rest)"
  shows "after_question rest = after_question url"
proof (cases "take 2 url = ''//''")
  case True
  let ?Q = "\<lambda>c. c \<notin> set ''/?#''"
  have rest: "rest = dropWhile ?Q (drop 2 url)"
    using assms True by (simp add: split_netloc_def splitnetloc_def)
  have "url = take 2 url @ takeWhile ?Q (drop 2 url) @ dropWhile ?Q (drop 2 url)"
    by simp
  then have url: "url = (''//'' @ takeWhile ?Q (drop 2 url)) @ rest"
    using True rest by simp
  have "CHR ''#'' \<notin> set (''//'' @ takeWhile ?Q (drop 2 url))"
    "CHR ''?'' \<notin> set (''//'' @ takeWhile ?Q (drop 2 url))"
    by (auto dest: set_takeWhileD)
  then have "after_question ((''//'' @ takeWhile ?Q (drop 2 url)) @ rest) = after_question rest"
    by (rule after_question_prefix)
  then show ?thesis using url by simp
next
  case False
  then show ?thesis using assms by (simp add: split_netloc_def)
qed

lemma takeWhile_neq_id: "sep \<notin> set s \<Longrightarrow> takeWhile (\<lambda>c. c \<noteq> sep) s = s"
  by (induction s) auto

lemma dropWhile_neq_Nil: "sep \<notin> set s \<Longrightarrow> dropWhile (\<lambda>c. c \<noteq> sep) s = []"
  by (induction s) auto

lemma split_once_fst:
  "split_once sep url = (a, b) \<Longrightarrow> a = takeWhile (\<lambda>c. c \<noteq> sep) url"
  by (auto simp: split_once_def partition_str_def takeWhile_neq_id split: if_splits)

lemma split_once_snd:
  "split_once sep url = (a, b) \<Longrightarrow> b = drop 1 (dropWhile (\<lambda>c. c \<noteq> sep) url)"
  by (auto simp: split_once_def partition_str_def dropWhile_neq_Nil split: if_splits)

lemma urlsplit_query:
  assumes "urlsplit lib url = Inr (s, n, p, q, f)"
  shows "q = query_text url"
proof -
  obtain s1 url1 where 1: "split_scheme (strip_url url) = (s1, url1)"
    by (cases "split_scheme (strip_url url)") auto
  obtain n1 url2 where 2: "split_netloc url1 = (n1, url2)"
    by (cases "split_netloc url1") auto
  obtain url3 f1 where 3: "split_once (CHR ''#'') url2 = (url3, f1)"
    by (cases "split_once (CHR ''#'') url2") auto
  obtain url4 q1 where 4: "split_once (CHR ''?'') url3 = (url4, q1)"
    by (cases "split_once (CHR ''?'') url3") auto
  have "q = q1"
    using assms 1 2 3 4 by (simp add: urlsplit_def split: option.splits)
  also have "q1 = after_question url2"
    using split_once_fst [OF 3] split_once_snd [OF 4] by (simp add: after_question_def)
  also have "\<dots> = after_question url1"
    using after_question_split_netloc [OF 2] by simp
  also have "\<dots> = after_question (strip_url url)"
    using after_question_split_scheme [OF 1] by simp
  also have "\<dots> = query_text url"
    by (rule query_text_strip_url)
  finally show ?thesis .
qed

text \<open>
  Whenever \<open>urlparse\<close> returns, the query string it reports is the query string of the
  URL as a text.
\<close>

lemma urlparse_query:
  assumes "urlparse lib url = Inr r"
  shows "query r = query_text url"
  using assms urlsplit_query [of lib url]
  by (auto simp: urlparse_def Let_def split: sum.splits prod.splits)

subsection \<open>The redirect URLs evaluated\<close>

lemma url_one_code:
  "urlparse permissive_stdlib ''http://localhost/callback?code=ABC&state=xyz'' =
     Inr \<lparr>scheme = ''http'', netloc = ''localhost'', path = ''/callback'', params = '''',
          query = ''code=ABC&state=xyz'', fragment = ''''\<rparr>"
  by code_simp

lemma url_blank_code:
  "urlparse permissive_stdlib ''http://localhost/callback?code='' =
     Inr \<lparr>scheme = ''http'', netloc = ''localhost'', path = ''/callback'', params = '''',
          query = ''code='', fragment = ''''\<rparr>"
  by code_simp

lemma url_no_code:
  "urlparse permissive_stdlib ''http://localhost/callback?error=access_denied&state=xyz'' =
     Inr \<lparr>scheme = ''http'', netloc = ''localhost'', path = ''/callback'', params = '''',
          query = ''error=access_denied&state=xyz'', fragment = ''''\<rparr>"
  by code_simp

lemma url_two_codes:
  "urlparse permissive_stdlib ''http://localhost/callback?code=A&code=B'' =
     Inr \<lparr>scheme = ''http'', netloc = ''localhost'', path = ''/callback'', params = '''',
          query = ''code=A&code=B'', fragment = ''''\<rparr>"
  by code_simp

lemma url_code_and_blank_code:
  "urlparse permissive_stdlib ''http://localhost/callback?code=A&code='' =
     Inr \<lparr>scheme = ''http'', netloc = ''localhost'', path = ''/callback'', params = '''',
          query = ''code=A&code='', fragment = ''''\<rparr>"
  by code_simp

lemma url_blank_code_and_state:
  "urlparse permissive_stdlib ''http://localhost/callback?code=&state=xyz'' =
     Inr \<lparr>scheme = ''http'', netloc = ''localhost'', path = ''/callback'', params = '''',
          query = ''code=&state=xyz'', fragment = ''''\<rparr>"
  by code_simp

text \<open>
  The network location \<open>localhost\<close> has no bracket and is ASCII, so neither library
  parameter is consulted: the two URLs at which a claim fails give the same result
  whatever the parameters are.
\<close>

lemma blank_code_any_library:
  "parse_code_from_url lib ''http://localhost/callback?code=''
     = Inl (KeyError ''Parameter `code` not available!'')"
  by code_simp

lemma blank_duplicate_any_library:
  "parse_code_from_url lib ''http://localhost/callback?code=A&code='' = Inr ''A''"
  by code_simp

subsection \<open>The claims\<close>

text \<open>
  C7, as stated: for every redirect URL whose query string contains exactly one \<open>code\<close>
  parameter, with value ABC, \<open>parse_code_from_url\<close> returns ABC. It fails where ABC is
  blank: the query string of \<open>http://localhost/callback?code=\<close> has exactly one \<open>code\<close>
  parameter, its value is the empty string, and the function raises the missing-code
  error instead of returning the empty string.
\<close>

theorem C7_blank_value_counterexample:
  "urlparse permissive_stdlib ''http://localhost/callback?code='' =
     Inr \<lparr>scheme = ''http'', netloc = ''localhost'', path = ''/callback'', params = '''',
          query = ''code='', fragment = ''''\<rparr> \<and>
   code_fields ''code='' = [''code=''] \<and>
   field_value ''code='' = '''' \<and>
   parse_code_from_url permissive_stdlib ''http://localhost/callback?code=''
     = Inl (KeyError ''Parameter `code` not available!'') \<and>
   parse_code_from_url permissive_stdlib ''http://localhost/callback?code=''
     \<noteq> Inr (field_value ''code='')"
  by code_simp

text \<open>
  C7, amended: for every redirect URL that \<open>urlparse\<close> accepts and whose query string
  contains exactly one \<open>code\<close> parameter, with a value ABC that is not blank,
  \<open>parse_code_from_url\<close> returns ABC.
\<close>

theorem C7_one_code_returned:
  assumes "urlparse lib url = Inr r"
    and "code_fields (query r) = [f]"
    and "field_value f \<noteq> []"
  shows "parse_code_from_url lib url = Inr (field_value f)"
  using assms by (simp add: parse_code_from_url_eq code_values_def)

theorem C7_witness:
  "urlparse permissive_stdlib ''http://localhost/callback?code=ABC&state=xyz'' =
     Inr \<lparr>scheme = ''http'', netloc = ''localhost'', path = ''/callback'', params = '''',
          query = ''code=ABC&state=xyz'', fragment = ''''\<rparr> \<and>
   code_fields ''code=ABC&state=xyz'' = [''code=ABC''] \<and>
   field_value ''code=ABC'' = ''ABC'' \<and>
   parse_code_from_url permissive_stdlib ''http://localhost/callback?code=ABC&state=xyz''
     = Inr ''ABC''"
proof -
  have fields: "code_fields ''code=ABC&state=xyz'' = [''code=ABC'']"
    by code_simp
  have val: "field_value ''code=ABC'' = ''ABC''"
    by code_simp
  have nonblank: "field_value ''code=ABC'' \<noteq> []"
    by (simp add: val)
  have "parse_code_from_url permissive_stdlib ''http://localhost/callback?code=ABC&state=xyz''
          = Inr (field_value ''code=ABC'')"
    by (rule C7_one_code_returned [OF url_one_code _ nonblank]) (simp add: fields)
  then show ?thesis
    using url_one_code fields val by simp
qed

text \<open>
  C8. For every redirect URL that \<open>urlparse\<close> accepts and whose query string contains no
  \<open>code\<close> parameter, \<open>parse_code_from_url\<close> raises the missing-code error, the
  \<open>KeyError\<close> with the message that the parameter is not available.
\<close>

theorem C8_no_code_missing_error:
  assumes "urlparse lib url = Inr r"
    and "code_fields (query r) = []"
  shows "parse_code_from_url lib url = Inl (KeyError ''Parameter `code` not available!'')"
  using assms by (simp add: parse_code_from_url_eq code_values_def)

theorem C8_witness:
  "urlparse permissive_stdlib ''http://localhost/callback?error=access_denied&state=xyz'' =
     Inr \<lparr>scheme = ''http'', netloc = ''localhost'', path = ''/callback'', params = '''',
          query = ''error=access_denied&state=xyz'', fragment = ''''\<rparr> \<and>
   code_fields ''error=access_denied&state=xyz'' = [] \<and>
   parse_code_from_url permissive_stdlib
       ''http://localhost/callback?error=access_denied&state=xyz''
     = Inl (KeyError ''Parameter `code` not available!'')"
proof -
  have fields: "code_fields ''error=access_denied&state=xyz'' = []"
    by code_simp
  have "parse_code_from_url permissive_stdlib
            ''http://localhost/callback?error=access_denied&state=xyz''
          = Inl (KeyError ''Parameter `code` not available!'')"
    by (rule C8_no_code_missing_error [OF url_no_code]) (simp add: fields)
  then show ?thesis
    using url_no_code fields by simp
qed

text \<open>
  C9, as stated: for every redirect URL whose query string contains the \<open>code\<close>
  parameter more than once, \<open>parse_code_from_url\<close> raises the multiple-code error. It
  fails where all but one of them are blank: the query string of
  \<open>http://localhost/callback?code=A&code=\<close> contains the \<open>code\<close> parameter twice, and
  the function returns \<open>A\<close>.
\<close>

theorem C9_blank_duplicate_counterexample:
  "urlparse permissive_stdlib ''http://localhost/callback?code=A&code='' =
     Inr \<lparr>scheme = ''http'', netloc = ''localhost'', path = ''/callback'', params = '''',
          query = ''code=A&code='', fragment = ''''\<rparr> \<and>
   code_fields ''code=A&code='' = [''code=A'', ''code=''] \<and>
   1 < length (code_fields ''code=A&code='') \<and>
   parse_code_from_url permissive_stdlib ''http://localhost/callback?code=A&code=''
     = Inr ''A'' \<and>
   parse_code_from_url permissive_stdlib ''http://localhost/callback?code=A&code=''
     \<noteq> Inl (KeyError ''Multiple values for `code`!'')"
  by code_simp

text \<open>
  C9, amended: for every redirect URL that \<open>urlparse\<close> accepts and whose query string
  contains more than one \<open>code\<close> parameter that is not blank, \<open>parse_code_from_url\<close>
  raises the multiple-code error, the \<open>KeyError\<close> with the message of multiple values,
  which is not the missing-code error.
\<close>

theorem C9_several_codes_multiple_error:
  assumes "urlparse lib url = Inr r"
    and "1 < length (filter (\<lambda>f. field_value f \<noteq> []) (code_fields (query r)))"
  shows "parse_code_from_url lib url = Inl (KeyError ''Multiple values for `code`!'') \<and>
         KeyError ''Multiple values for `code`!'' \<noteq> KeyError ''Parameter `code` not available!''"
proof -
  have "1 < length (code_values (query r))"
    using assms(2) by (simp add: length_code_values)
  then obtain a b cs where "code_values (query r) = a # b # cs"
    by (cases "code_values (query r)" rule: remdups_adj.cases) auto
  then show ?thesis
    using assms(1) by (simp add: parse_code_from_url_eq)
qed

theorem C9_witness:
  "urlparse permissive_stdlib ''http://localhost/callback?code=A&code=B'' =
     Inr \<lparr>scheme = ''http'', netloc = ''localhost'', path = ''/callback'', params = '''',
          query = ''code=A&code=B'', fragment = ''''\<rparr> \<and>
   filter (\<lambda>f. field_value f \<noteq> []) (code_fields ''code=A&code=B'') = [''code=A'', ''code=B''] \<and>
   parse_code_from_url permissive_stdlib ''http://localhost/callback?code=A&code=B''
     = Inl (KeyError ''Multiple values for `code`!'')"
proof -
  have fields: "filter (\<lambda>f. field_value f \<noteq> []) (code_fields ''code=A&code=B'')
                  = [''code=A'', ''code=B'']"
    by code_simp
  have "parse_code_from_url permissive_stdlib ''http://localhost/callback?code=A&code=B''
          = Inl (KeyError ''Multiple values for `code`!'') \<and>
        KeyError ''Multiple values for `code`!'' \<noteq> KeyError ''Parameter `code` not available!''"
    by (rule C9_several_codes_multiple_error [OF url_two_codes]) (simp add: fields)
  then show ?thesis
    using url_two_codes fields by simp
qed

text \<open>
  C10. For every redirect URL that \<open>urlparse\<close> accepts and whose query string contains
  \<open>code\<close> with a blank value, and with no other value, \<open>parse_code_from_url\<close> raises
  the missing-code error and does not return the empty string: \<open>parse_qsl\<close> drops the
  fields whose value is blank.
\<close>

theorem C10_blank_code_missing_error:
  assumes "urlparse lib url = Inr r"
    and "code_fields (query r) \<noteq> []"
    and "\<forall>f \<in> set (code_fields (query r)). field_value f = []"
  shows "parse_code_from_url lib url = Inl (KeyError ''Parameter `code` not available!'') \<and>
         parse_code_from_url lib url \<noteq> Inr '''' \<and>
         filter (\<lambda>p. fst p = ''code'') (parse_qsl (query r)) = []"
proof -
  have "code_values (query r) = []"
    using assms(3) by (auto simp: code_values_def filter_empty_conv)
  moreover have "filter (\<lambda>p. fst p = ''code'') (parse_qsl (query r)) = []"
    using assms(3)
    by (auto simp: parse_qsl_eq filter_map o_def filter_empty_conv code_fields_def)
  ultimately show ?thesis
    using assms(1) by (simp add: parse_code_from_url_eq)
qed

theorem C10_witness:
  "urlparse permissive_stdlib ''http://localhost/callback?code=&state=xyz'' =
     Inr \<lparr>scheme = ''http'', netloc = ''localhost'', path = ''/callback'', params = '''',
          query = ''code=&state=xyz'', fragment = ''''\<rparr> \<and>
   code_fields ''code=&state=xyz'' = [''code=''] \<and>
   field_value ''code='' = '''' \<and>
   parse_qsl ''code=&state=xyz'' = [(''state'', ''xyz'')] \<and>
   parse_code_from_url permissive_stdlib ''http://localhost/callback?code=&state=xyz''
     = Inl (KeyError ''Parameter `code` not available!'')"
proof -
  have fields: "code_fields ''code=&state=xyz'' = [''code='']"
    by code_simp
  have val: "field_value ''code='' = ''''"
    by code_simp
  have pairs: "parse_qsl ''code=&state=xyz'' = [(''state'', ''xyz'')]"
    by code_simp
  have "parse_code_from_url permissive_stdlib ''http://localhost/callback?code=&state=xyz''
          = Inl (KeyError ''Parameter `code` not available!'') \<and>
        parse_code_from_url permissive_stdlib ''http://localhost/callback?code=&state=xyz''
          \<noteq> Inr '''' \<and>
        filter (\<lambda>p. fst p = ''code'')
          (parse_qsl (query \<lparr>scheme = ''http'', netloc = ''localhost'', path = ''/callback'',
             params = '''', query = ''code=&state=xyz'', fragment = ''''\<rparr>)) = []"
    by (rule C10_blank_code_missing_error [OF url_blank_code_and_state])
      (simp_all add: fields val)
  then show ?thesis
    using url_blank_code_and_state fields val pairs by simp
qed

end
